theory Spec2Isabelle
  imports Main "HOL-Library.Word" "HOL-Library.AList"
begin

unbundle bit_operations_syntax

section \<open>Kernel archive objects of core/hle/kernel/archive.cpp\<close>

text \<open>
  The development embeds the archive, file and directory kernel objects, the archive
  registry \<open>g_archive_map\<close> and the path operations of \<^verbatim>\<open>archive.cpp\<close>.
  Logging macros (\<^verbatim>\<open>ERROR_LOG\<close>, \<^verbatim>\<open>INFO_LOG\<close>, \<^verbatim>\<open>DEBUG_LOG\<close>) have no
  effect on the modelled state and are left out.
\<close>

subsection \<open>Words, handles and paths\<close>

type_synonym u32 = "32 word"
type_synonym u64 = "64 word"

text \<open>
  \<open>Handle\<close> is an opaque integer naming one live kernel object. \<open>IdCode\<close> is the
  \<^verbatim>\<open>u32\<close>-based enumeration \<^verbatim>\<open>FileSys::Archive::IdCode\<close>. A \<open>BackendPtr\<close> names
  one backend object (\<^verbatim>\<open>FileSys::Archive*\<close>, \<^verbatim>\<open>FileSys::File\<close>,
  \<^verbatim>\<open>FileSys::Directory\<close>) of the external filesystem implementation; a null
  pointer is \<open>None\<close> of \<open>BackendPtr option\<close>.
\<close>

type_synonym Handle = nat
type_synonym IdCode = "32 word"
type_synonym BackendPtr = nat
type_synonym Mode = u32

datatype LowPathType =
  FileSys_Invalid | FileSys_Empty | FileSys_Binary | FileSys_Char | FileSys_Wchar

record Path =
  GetType :: LowPathType
  Path_data :: string

text \<open>The default-constructed \<^verbatim>\<open>FileSys::Path\<close> held by a freshly allocated object.\<close>

definition Path_default :: Path where
  "Path_default = \<lparr>GetType = FileSys_Invalid, Path_data = []\<rparr>"

subsection \<open>Result codes\<close>

text \<open>
  Modelled from the spec: \<^verbatim>\<open>core/hle/result.h\<close> is not among the sources. The spec
  describes a result as either success with a payload or a structured error
  (module, description, summary, level), and names the error kinds InvalidHandle and
  UnimplementedFunction, each tagged with a module. The enumerations list the members
  that \<^verbatim>\<open>archive.cpp\<close> uses. The two helper functions \<^verbatim>\<open>UnimplementedFunction\<close> and
  \<^verbatim>\<open>InvalidHandle\<close> are kept as constructors of their own, since their field values
  are fixed in the missing header.
\<close>

datatype ErrorDescription = ErrorDescription_NoData | ErrorDescription_NotFound
datatype ErrorModule = ErrorModule_Common | ErrorModule_Kernel | ErrorModule_FS
datatype ErrorSummary =
  ErrorSummary_NothingHappened | ErrorSummary_NotFound | ErrorSummary_Canceled
datatype ErrorLevel = ErrorLevel_Status | ErrorLevel_Permanent

datatype ResultCode =
    RESULT_SUCCESS
  | ResultCode ErrorDescription ErrorModule ErrorSummary ErrorLevel
  | UnimplementedFunction ErrorModule
  | InvalidHandle ErrorModule

fun IsSuccess :: "ResultCode \<Rightarrow> bool" where
  "IsSuccess RESULT_SUCCESS = True"
| "IsSuccess (ResultCode d m s l) = False"
| "IsSuccess (UnimplementedFunction m) = False"
| "IsSuccess (InvalidHandle m) = False"

definition IsError :: "ResultCode \<Rightarrow> bool" where
  "IsError rc = (\<not> IsSuccess rc)"

fun summary :: "ResultCode \<Rightarrow> ErrorSummary option" where
  "summary (ResultCode d m s l) = Some s"
| "summary rc = None"

text \<open>
  Modelled from the spec: \<^verbatim>\<open>ResultVal<T>\<close> of the missing \<^verbatim>\<open>result.h\<close>, a result
  code together with the payload that is present exactly on success.
  \<open>MakeResult\<close> builds the success value, \<open>ErrorResult\<close> is the implicit conversion
  of an error code that the \<^verbatim>\<open>return\<close> statements of \<^verbatim>\<open>archive.cpp\<close> rely on.
\<close>

datatype 'a ResultVal = ResultVal ResultCode "'a option"

fun Code :: "'a ResultVal \<Rightarrow> ResultCode" where
  "Code (ResultVal rc v) = rc"

fun Payload :: "'a ResultVal \<Rightarrow> 'a option" where
  "Payload (ResultVal rc v) = v"

definition Succeeded :: "'a ResultVal \<Rightarrow> bool" where
  "Succeeded r = IsSuccess (Code r)"

definition MakeResult :: "'a \<Rightarrow> 'a ResultVal" where
  "MakeResult v = ResultVal RESULT_SUCCESS (Some v)"

definition ErrorResult :: "ResultCode \<Rightarrow> 'a ResultVal" where
  "ErrorResult rc = ResultVal rc None"

subsection \<open>Kernel objects and the object pool\<close>

record Archive =
  Archive_handle :: Handle
  Archive_name :: string
  Archive_backend :: BackendPtr

record File =
  File_handle :: Handle
  File_path :: Path
  File_backend :: "BackendPtr option"

record Directory =
  Directory_handle :: Handle
  Directory_path :: Path
  Directory_backend :: "BackendPtr option"

datatype Object = ArchiveObject Archive | FileObject File | DirectoryObject Directory

text \<open>
  Modelled from the spec: the object pool \<^verbatim>\<open>Kernel::g_object_pool\<close> is declared
  outside the sources. Following section 4.1 of the spec, \<open>Create\<close> registers a new
  object under a fresh handle and returns the handle, \<open>Get\<close> returns the object only
  if the handle is live and of the requested type and null (\<open>None\<close>) otherwise, and
  \<open>Destroy\<close> releases the object and invalidates the handle. The spec has one lookup
  only, so \<^verbatim>\<open>GetFast<T>\<close> is the same type-checked lookup as \<^verbatim>\<open>Get<T>\<close>.
  The pool is an association list from handles to objects; an object is built from
  the handle it is registered under, which is what \<^verbatim>\<open>GetHandle()\<close> returns later.
  An object lives in exactly one slot of the pool, so the identity of a pointer into
  the pool is the handle of its slot.
\<close>

type_synonym ObjectPool = "(Handle \<times> Object) list"

definition fresh_handle :: "ObjectPool \<Rightarrow> Handle" where
  "fresh_handle pool = Suc (fold max (map fst pool) 0)"

definition Create :: "ObjectPool \<Rightarrow> (Handle \<Rightarrow> Object) \<Rightarrow> Handle \<times> ObjectPool" where
  "Create pool new_object =
     (let handle = fresh_handle pool in (handle, (handle, new_object handle) # pool))"

definition Get_Archive :: "ObjectPool \<Rightarrow> Handle \<Rightarrow> Archive option" where
  "Get_Archive pool handle =
     (case map_of pool handle of Some (ArchiveObject a) \<Rightarrow> Some a | _ \<Rightarrow> None)"

definition GetFast_Archive :: "ObjectPool \<Rightarrow> Handle \<Rightarrow> Archive option" where
  "GetFast_Archive pool handle = Get_Archive pool handle"

definition Get_File :: "ObjectPool \<Rightarrow> Handle \<Rightarrow> File option" where
  "Get_File pool handle =
     (case map_of pool handle of Some (FileObject f) \<Rightarrow> Some f | _ \<Rightarrow> None)"

definition Get_Directory :: "ObjectPool \<Rightarrow> Handle \<Rightarrow> Directory option" where
  "Get_Directory pool handle =
     (case map_of pool handle of Some (DirectoryObject d) \<Rightarrow> Some d | _ \<Rightarrow> None)"

subsection \<open>The external collaborators\<close>

text \<open>
  The filesystem backends and the guest memory are external: the code only calls
  them. They are a parameter of the model, a state \<open>'w\<close> of the outside world with
  one function per backend operation, returning the operation's result and the new
  world. A guest buffer is passed by its address, which is what
  \<^verbatim>\<open>Memory::GetPointer\<close> is applied to. \<open>raw\<close> is the 32-bit encoding of a
  result code (the \<^verbatim>\<open>raw\<close> member declared in the missing \<^verbatim>\<open>result.h\<close>).
\<close>

record 'w FileSys =
  raw :: "ResultCode \<Rightarrow> u32"
  ArchiveBackend_GetIdCode :: "BackendPtr \<Rightarrow> 'w \<Rightarrow> IdCode \<times> 'w"
  ArchiveBackend_Read :: "BackendPtr \<Rightarrow> u64 \<Rightarrow> u32 \<Rightarrow> u32 \<Rightarrow> 'w \<Rightarrow> u64 \<times> 'w"
  ArchiveBackend_Write :: "BackendPtr \<Rightarrow> u64 \<Rightarrow> u32 \<Rightarrow> u32 \<Rightarrow> u32 \<Rightarrow> 'w \<Rightarrow> u64 \<times> 'w"
  ArchiveBackend_GetSize :: "BackendPtr \<Rightarrow> 'w \<Rightarrow> u64 \<times> 'w"
  ArchiveBackend_SetSize :: "BackendPtr \<Rightarrow> u64 \<Rightarrow> 'w \<Rightarrow> unit \<times> 'w"
  ArchiveBackend_OpenFile :: "BackendPtr \<Rightarrow> Path \<Rightarrow> Mode \<Rightarrow> 'w \<Rightarrow> BackendPtr option \<times> 'w"
  ArchiveBackend_DeleteFile :: "BackendPtr \<Rightarrow> Path \<Rightarrow> 'w \<Rightarrow> bool \<times> 'w"
  ArchiveBackend_RenameFile :: "BackendPtr \<Rightarrow> Path \<Rightarrow> Path \<Rightarrow> 'w \<Rightarrow> bool \<times> 'w"
  ArchiveBackend_DeleteDirectory :: "BackendPtr \<Rightarrow> Path \<Rightarrow> 'w \<Rightarrow> bool \<times> 'w"
  ArchiveBackend_CreateDirectory :: "BackendPtr \<Rightarrow> Path \<Rightarrow> 'w \<Rightarrow> bool \<times> 'w"
  ArchiveBackend_RenameDirectory :: "BackendPtr \<Rightarrow> Path \<Rightarrow> Path \<Rightarrow> 'w \<Rightarrow> bool \<times> 'w"
  ArchiveBackend_OpenDirectory :: "BackendPtr \<Rightarrow> Path \<Rightarrow> 'w \<Rightarrow> BackendPtr option \<times> 'w"
  FileBackend_Read :: "BackendPtr \<Rightarrow> u64 \<Rightarrow> u32 \<Rightarrow> u32 \<Rightarrow> 'w \<Rightarrow> u64 \<times> 'w"
  FileBackend_Write :: "BackendPtr \<Rightarrow> u64 \<Rightarrow> u32 \<Rightarrow> u32 \<Rightarrow> u32 \<Rightarrow> 'w \<Rightarrow> u64 \<times> 'w"
  FileBackend_GetSize :: "BackendPtr \<Rightarrow> 'w \<Rightarrow> u64 \<times> 'w"
  FileBackend_SetSize :: "BackendPtr \<Rightarrow> u64 \<Rightarrow> 'w \<Rightarrow> unit \<times> 'w"
  FileBackend_Release :: "BackendPtr \<Rightarrow> 'w \<Rightarrow> unit \<times> 'w"
  DirectoryBackend_Read :: "BackendPtr \<Rightarrow> u32 \<Rightarrow> u32 \<Rightarrow> 'w \<Rightarrow> u64 \<times> 'w"
  DirectoryBackend_Release :: "BackendPtr \<Rightarrow> 'w \<Rightarrow> unit \<times> 'w"

text \<open>Every call into a backend is recorded, in order, with its arguments.\<close>

datatype BackendCall =
    Call_Archive_GetIdCode BackendPtr
  | Call_Archive_Read BackendPtr u64 u32 u32
  | Call_Archive_Write BackendPtr u64 u32 u32 u32
  | Call_Archive_GetSize BackendPtr
  | Call_Archive_SetSize BackendPtr u64
  | Call_Archive_OpenFile BackendPtr Path Mode
  | Call_Archive_DeleteFile BackendPtr Path
  | Call_Archive_RenameFile BackendPtr Path Path
  | Call_Archive_DeleteDirectory BackendPtr Path
  | Call_Archive_CreateDirectory BackendPtr Path
  | Call_Archive_RenameDirectory BackendPtr Path Path
  | Call_Archive_OpenDirectory BackendPtr Path
  | Call_File_Read BackendPtr u64 u32 u32
  | Call_File_Write BackendPtr u64 u32 u32 u32
  | Call_File_GetSize BackendPtr
  | Call_File_SetSize BackendPtr u64
  | Call_File_Release BackendPtr
  | Call_Directory_Read BackendPtr u32 u32
  | Call_Directory_Release BackendPtr

subsection \<open>The kernel state\<close>

text \<open>
  The globals that \<^verbatim>\<open>archive.cpp\<close> reads and writes: the object pool, the archive
  registry \<open>g_archive_map\<close>, the command buffer returned by
  \<^verbatim>\<open>Service::GetCommandBuffer()\<close> (an array of 32-bit words, of which the code
  touches the constant indices 0 to 6), the outside world and the record of the
  backend calls made so far.
\<close>

record 'w KernelState =
  g_object_pool :: ObjectPool
  g_archive_map :: "IdCode \<rightharpoonup> Handle"
  cmd_buff :: "nat \<Rightarrow> u32"
  world :: 'w
  calls :: "BackendCall list"

definition backend_call ::
  "BackendCall \<Rightarrow> ('w \<Rightarrow> 'r \<times> 'w) \<Rightarrow> 'w KernelState \<Rightarrow> 'r \<times> 'w KernelState" where
  "backend_call c operation s =
     (let (r, w) = operation (world s)
      in (r, s\<lparr>world := w, calls := calls s @ [c]\<rparr>))"

definition set_cmd_buff :: "nat \<Rightarrow> u32 \<Rightarrow> 'w KernelState \<Rightarrow> 'w KernelState" where
  "set_cmd_buff i v s = s\<lparr>cmd_buff := (cmd_buff s)(i := v)\<rparr>"

subsection \<open>Splitting 64-bit values over two words\<close>

text \<open>\<^verbatim>\<open>lo | ((u64)hi << 32)\<close>, the decoding of an offset or a size.\<close>

definition decode_u64 :: "u32 \<Rightarrow> u32 \<Rightarrow> u64" where
  "decode_u64 lo hi = ucast lo OR push_bit 32 (ucast hi)"

text \<open>\<^verbatim>\<open>(u32)size\<close> and \<^verbatim>\<open>size >> 32\<close> stored in a \<^verbatim>\<open>u32\<close>, the encoding of a size.\<close>

definition lower_word :: "u64 \<Rightarrow> u32" where
  "lower_word size64 = ucast size64"

definition upper_word :: "u64 \<Rightarrow> u32" where
  "upper_word size64 = ucast (drop_bit 32 size64)"

subsection \<open>The archive registry\<close>

definition OpenArchive :: "IdCode \<Rightarrow> 'w KernelState \<Rightarrow> Handle ResultVal \<times> 'w KernelState" where
  "OpenArchive id_code s =
     (case g_archive_map s id_code of
        None \<Rightarrow>
          (ErrorResult (ResultCode ErrorDescription_NotFound ErrorModule_FS
                          ErrorSummary_NotFound ErrorLevel_Permanent), s)
      | Some handle \<Rightarrow> (MakeResult handle, s))"

definition CloseArchive :: "IdCode \<Rightarrow> 'w KernelState \<Rightarrow> ResultCode \<times> 'w KernelState" where
  "CloseArchive id_code s =
     (case g_archive_map s id_code of
        None \<Rightarrow> (InvalidHandle ErrorModule_FS, s)
      | Some handle \<Rightarrow> (RESULT_SUCCESS, s))"

definition MountArchive ::
  "'w FileSys \<Rightarrow> Archive \<Rightarrow> 'w KernelState \<Rightarrow> ResultCode \<times> 'w KernelState" where
  "MountArchive fs archive s =
     (let (id_code, s1) =
            backend_call (Call_Archive_GetIdCode (Archive_backend archive))
              (ArchiveBackend_GetIdCode fs (Archive_backend archive)) s;
          (archive_handle, s2) = OpenArchive id_code s1
      in if Succeeded archive_handle then (Code archive_handle, s2)
         else (RESULT_SUCCESS,
               s2\<lparr>g_archive_map := (g_archive_map s2)(id_code \<mapsto> Archive_handle archive)\<rparr>))"

definition CreateArchive ::
  "'w FileSys \<Rightarrow> BackendPtr \<Rightarrow> string \<Rightarrow> 'w KernelState \<Rightarrow> ResultCode \<times> 'w KernelState" where
  "CreateArchive fs backend name s =
     (let (handle, pool) =
            Create (g_object_pool s)
              (\<lambda>h. ArchiveObject
                     \<lparr>Archive_handle = h, Archive_name = name, Archive_backend = backend\<rparr>);
          archive = \<lparr>Archive_handle = handle, Archive_name = name, Archive_backend = backend\<rparr>;
          (result, s1) = MountArchive fs archive (s\<lparr>g_object_pool := pool\<rparr>)
      in if IsError result then (result, s1) else (RESULT_SUCCESS, s1))"

text \<open>
  \<^verbatim>\<open>Destroy<T>(handle)\<close> deletes the object registered under the handle when it has
  type \<open>T\<close>; deleting a \<open>File\<close> or a \<open>Directory\<close> destroys the backend it owns
  (a \<^verbatim>\<open>std::unique_ptr\<close>), which is a call into the backend when it is not null.
\<close>

definition Destroy_File :: "'w FileSys \<Rightarrow> Handle \<Rightarrow> 'w KernelState \<Rightarrow> 'w KernelState" where
  "Destroy_File fs handle s =
     (case Get_File (g_object_pool s) handle of
        None \<Rightarrow> s
      | Some f \<Rightarrow>
          (let s1 = (case File_backend f of
                       None \<Rightarrow> s
                     | Some b \<Rightarrow> snd (backend_call (Call_File_Release b) (FileBackend_Release fs b) s))
           in s1\<lparr>g_object_pool := AList.delete handle (g_object_pool s1)\<rparr>))"

definition Destroy_Directory :: "'w FileSys \<Rightarrow> Handle \<Rightarrow> 'w KernelState \<Rightarrow> 'w KernelState" where
  "Destroy_Directory fs handle s =
     (case Get_Directory (g_object_pool s) handle of
        None \<Rightarrow> s
      | Some d \<Rightarrow>
          (let s1 = (case Directory_backend d of
                       None \<Rightarrow> s
                     | Some b \<Rightarrow>
                         snd (backend_call (Call_Directory_Release b)
                                (DirectoryBackend_Release fs b) s))
           in s1\<lparr>g_object_pool := AList.delete handle (g_object_pool s1)\<rparr>))"

subsection \<open>Command dispatch\<close>

definition FileCommand_Dummy1 :: u32 where "FileCommand_Dummy1 = 0x000100C6"
definition FileCommand_Control :: u32 where "FileCommand_Control = 0x040100C4"
definition FileCommand_OpenSubFile :: u32 where "FileCommand_OpenSubFile = 0x08010100"
definition FileCommand_Read :: u32 where "FileCommand_Read = 0x080200C2"
definition FileCommand_Write :: u32 where "FileCommand_Write = 0x08030102"
definition FileCommand_GetSize :: u32 where "FileCommand_GetSize = 0x08040000"
definition FileCommand_SetSize :: u32 where "FileCommand_SetSize = 0x08050080"
definition FileCommand_GetAttributes :: u32 where "FileCommand_GetAttributes = 0x08060000"
definition FileCommand_SetAttributes :: u32 where "FileCommand_SetAttributes = 0x08070040"
definition FileCommand_Close :: u32 where "FileCommand_Close = 0x08080000"
definition FileCommand_Flush :: u32 where "FileCommand_Flush = 0x08090000"

definition DirectoryCommand_Read :: u32 where "DirectoryCommand_Read = 0x08010042"
definition DirectoryCommand_Close :: u32 where "DirectoryCommand_Close = 0x08020000"

text \<open>
  The statements after the \<^verbatim>\<open>switch\<close>, reached by every case that ends in
  \<^verbatim>\<open>break\<close>: \<^verbatim>\<open>cmd_buff[1] = 0; return MakeResult<bool>(false);\<close>
\<close>

definition SyncRequest_done :: "'w KernelState \<Rightarrow> bool ResultVal \<times> 'w KernelState" where
  "SyncRequest_done s = (MakeResult False, set_cmd_buff 1 0 s)"

text \<open>
  \<^verbatim>\<open>Archive::SyncRequest\<close>. A backend count (\<^verbatim>\<open>size_t\<close>) is truncated to the
  \<^verbatim>\<open>u32\<close> slot it is stored in. The default case returns before the status word
  is written.
\<close>

definition Archive_SyncRequest ::
  "'w FileSys \<Rightarrow> Archive \<Rightarrow> 'w KernelState \<Rightarrow> bool ResultVal \<times> 'w KernelState" where
  "Archive_SyncRequest fs this s =
     (let cmd = cmd_buff s 0; backend = Archive_backend this
      in if cmd = FileCommand_Read then
           (let offset = decode_u64 (cmd_buff s 1) (cmd_buff s 2);
                len = cmd_buff s 3;
                address = cmd_buff s 5;
                (n, s1) = backend_call (Call_Archive_Read backend offset len address)
                            (ArchiveBackend_Read fs backend offset len address) s
            in SyncRequest_done (set_cmd_buff 2 (ucast n) s1))
         else if cmd = FileCommand_Write then
           (let offset = decode_u64 (cmd_buff s 1) (cmd_buff s 2);
                len = cmd_buff s 3;
                flush = cmd_buff s 4;
                address = cmd_buff s 6;
                (n, s1) = backend_call (Call_Archive_Write backend offset len flush address)
                            (ArchiveBackend_Write fs backend offset len flush address) s
            in SyncRequest_done (set_cmd_buff 2 (ucast n) s1))
         else if cmd = FileCommand_GetSize then
           (let (filesize, s1) = backend_call (Call_Archive_GetSize backend)
                                   (ArchiveBackend_GetSize fs backend) s
            in SyncRequest_done
                 (set_cmd_buff 3 (upper_word filesize) (set_cmd_buff 2 (lower_word filesize) s1)))
         else if cmd = FileCommand_SetSize then
           (let size64 = decode_u64 (cmd_buff s 1) (cmd_buff s 2);
                (u, s1) = backend_call (Call_Archive_SetSize backend size64)
                            (ArchiveBackend_SetSize fs backend size64) s
            in SyncRequest_done s1)
         else if cmd = FileCommand_Close then
           (let (id_code, s1) = backend_call (Call_Archive_GetIdCode backend)
                                  (ArchiveBackend_GetIdCode fs backend) s;
                (result, s2) = CloseArchive id_code s1
            in SyncRequest_done s2)
         else (ErrorResult (UnimplementedFunction ErrorModule_FS), s))"

text \<open>
  \<^verbatim>\<open>File::SyncRequest\<close>. The backend is a \<^verbatim>\<open>std::unique_ptr\<close> that may be null;
  calling through a null backend has no defined behaviour, which is the value
  \<open>None\<close>.
\<close>

definition File_SyncRequest ::
  "'w FileSys \<Rightarrow> File \<Rightarrow> 'w KernelState \<Rightarrow> (bool ResultVal \<times> 'w KernelState) option" where
  "File_SyncRequest fs this s =
     (let cmd = cmd_buff s 0
      in if cmd = FileCommand_Read then
           (case File_backend this of
              None \<Rightarrow> None
            | Some backend \<Rightarrow>
                (let offset = decode_u64 (cmd_buff s 1) (cmd_buff s 2);
                     len = cmd_buff s 3;
                     address = cmd_buff s 5;
                     (n, s1) = backend_call (Call_File_Read backend offset len address)
                                 (FileBackend_Read fs backend offset len address) s
                 in Some (SyncRequest_done (set_cmd_buff 2 (ucast n) s1))))
         else if cmd = FileCommand_Write then
           (case File_backend this of
              None \<Rightarrow> None
            | Some backend \<Rightarrow>
                (let offset = decode_u64 (cmd_buff s 1) (cmd_buff s 2);
                     len = cmd_buff s 3;
                     flush = cmd_buff s 4;
                     address = cmd_buff s 6;
                     (n, s1) = backend_call (Call_File_Write backend offset len flush address)
                                 (FileBackend_Write fs backend offset len flush address) s
                 in Some (SyncRequest_done (set_cmd_buff 2 (ucast n) s1))))
         else if cmd = FileCommand_GetSize then
           (case File_backend this of
              None \<Rightarrow> None
            | Some backend \<Rightarrow>
                (let (size64, s1) = backend_call (Call_File_GetSize backend)
                                      (FileBackend_GetSize fs backend) s
                 in Some (SyncRequest_done
                      (set_cmd_buff 3 (upper_word size64)
                         (set_cmd_buff 2 (lower_word size64) s1)))))
         else if cmd = FileCommand_SetSize then
           (case File_backend this of
              None \<Rightarrow> None
            | Some backend \<Rightarrow>
                (let size64 = decode_u64 (cmd_buff s 1) (cmd_buff s 2);
                     (u, s1) = backend_call (Call_File_SetSize backend size64)
                                 (FileBackend_SetSize fs backend size64) s
                 in Some (SyncRequest_done s1)))
         else if cmd = FileCommand_Close then
           Some (SyncRequest_done (Destroy_File fs (File_handle this) s))
         else
           (let error = UnimplementedFunction ErrorModule_FS
            in Some (ErrorResult error, set_cmd_buff 1 (raw fs error) s)))"

text \<open>\<^verbatim>\<open>Directory::SyncRequest\<close>, over the smaller \<^verbatim>\<open>DirectoryCommand\<close> enumeration.\<close>

definition Directory_SyncRequest ::
  "'w FileSys \<Rightarrow> Directory \<Rightarrow> 'w KernelState \<Rightarrow> (bool ResultVal \<times> 'w KernelState) option" where
  "Directory_SyncRequest fs this s =
     (let cmd = cmd_buff s 0
      in if cmd = DirectoryCommand_Read then
           (case Directory_backend this of
              None \<Rightarrow> None
            | Some backend \<Rightarrow>
                (let count = cmd_buff s 1;
                     address = cmd_buff s 3;
                     (n, s1) = backend_call (Call_Directory_Read backend count address)
                                 (DirectoryBackend_Read fs backend count address) s
                 in Some (SyncRequest_done (set_cmd_buff 2 (ucast n) s1))))
         else if cmd = DirectoryCommand_Close then
           Some (SyncRequest_done (Destroy_Directory fs (Directory_handle this) s))
         else
           (let error = UnimplementedFunction ErrorModule_FS
            in Some (ErrorResult error, set_cmd_buff 1 (raw fs error) s)))"

subsection \<open>Operations on paths of a mounted archive\<close>

text \<open>
  \<^verbatim>\<open>OpenFileFromArchive\<close>: a binary path returns the archive handle at once. Otherwise
  the \<open>File\<close> is allocated and registered first, the archive is looked up second,
  and the path and the backend are stored into the registered object last.
\<close>

definition OpenFileFromArchive ::
  "'w FileSys \<Rightarrow> Handle \<Rightarrow> Path \<Rightarrow> Mode \<Rightarrow> 'w KernelState \<Rightarrow> Handle ResultVal \<times> 'w KernelState" where
  "OpenFileFromArchive fs archive_handle path mode s =
     (if GetType path = FileSys_Binary then (MakeResult archive_handle, s)
      else
        (let (handle, pool) =
               Create (g_object_pool s)
                 (\<lambda>h. FileObject
                        \<lparr>File_handle = h, File_path = Path_default, File_backend = None\<rparr>);
             s1 = s\<lparr>g_object_pool := pool\<rparr>
         in case Get_Archive (g_object_pool s1) archive_handle of
              None \<Rightarrow> (ErrorResult (InvalidHandle ErrorModule_FS), s1)
            | Some archive \<Rightarrow>
                (let (backend, s2) =
                       backend_call (Call_Archive_OpenFile (Archive_backend archive) path mode)
                         (ArchiveBackend_OpenFile fs (Archive_backend archive) path mode) s1;
                     file = \<lparr>File_handle = handle, File_path = path, File_backend = backend\<rparr>;
                     s3 = s2\<lparr>g_object_pool :=
                               AList.update handle (FileObject file) (g_object_pool s2)\<rparr>
                 in case backend of
                      None \<Rightarrow>
                        (ErrorResult (ResultCode ErrorDescription_NotFound ErrorModule_FS
                                        ErrorSummary_NotFound ErrorLevel_Permanent), s3)
                    | Some b \<Rightarrow> (MakeResult handle, s3))))"

definition DeleteFileFromArchive ::
  "'w FileSys \<Rightarrow> Handle \<Rightarrow> Path \<Rightarrow> 'w KernelState \<Rightarrow> ResultCode \<times> 'w KernelState" where
  "DeleteFileFromArchive fs archive_handle path s =
     (case GetFast_Archive (g_object_pool s) archive_handle of
        None \<Rightarrow> (InvalidHandle ErrorModule_FS, s)
      | Some archive \<Rightarrow>
          (let (ok, s1) =
                 backend_call (Call_Archive_DeleteFile (Archive_backend archive) path)
                   (ArchiveBackend_DeleteFile fs (Archive_backend archive) path) s
           in if ok then (RESULT_SUCCESS, s1)
              else (ResultCode ErrorDescription_NoData ErrorModule_FS
                      ErrorSummary_Canceled ErrorLevel_Status, s1)))"

text \<open>
  The renames compare the two archive pointers. Both point into the object pool, so
  they are equal exactly when the two handles name the same slot.
\<close>

definition RenameFileBetweenArchives ::
  "'w FileSys \<Rightarrow> Handle \<Rightarrow> Path \<Rightarrow> Handle \<Rightarrow> Path \<Rightarrow> 'w KernelState
     \<Rightarrow> ResultCode \<times> 'w KernelState" where
  "RenameFileBetweenArchives fs src_archive_handle src_path dest_archive_handle dest_path s =
     (case GetFast_Archive (g_object_pool s) src_archive_handle of
        None \<Rightarrow> (InvalidHandle ErrorModule_FS, s)
      | Some src_archive \<Rightarrow>
          (case GetFast_Archive (g_object_pool s) dest_archive_handle of
             None \<Rightarrow> (InvalidHandle ErrorModule_FS, s)
           | Some dest_archive \<Rightarrow>
               if src_archive_handle = dest_archive_handle then
                 (let (ok, s1) =
                        backend_call
                          (Call_Archive_RenameFile (Archive_backend src_archive) src_path dest_path)
                          (ArchiveBackend_RenameFile fs (Archive_backend src_archive)
                             src_path dest_path) s
                  in if ok then (RESULT_SUCCESS, s1)
                     else (ResultCode ErrorDescription_NoData ErrorModule_FS
                             ErrorSummary_NothingHappened ErrorLevel_Status, s1))
               else (UnimplementedFunction ErrorModule_FS, s)))"

definition DeleteDirectoryFromArchive ::
  "'w FileSys \<Rightarrow> Handle \<Rightarrow> Path \<Rightarrow> 'w KernelState \<Rightarrow> ResultCode \<times> 'w KernelState" where
  "DeleteDirectoryFromArchive fs archive_handle path s =
     (case GetFast_Archive (g_object_pool s) archive_handle of
        None \<Rightarrow> (InvalidHandle ErrorModule_FS, s)
      | Some archive \<Rightarrow>
          (let (ok, s1) =
                 backend_call (Call_Archive_DeleteDirectory (Archive_backend archive) path)
                   (ArchiveBackend_DeleteDirectory fs (Archive_backend archive) path) s
           in if ok then (RESULT_SUCCESS, s1)
              else (ResultCode ErrorDescription_NoData ErrorModule_FS
                      ErrorSummary_Canceled ErrorLevel_Status, s1)))"

definition CreateDirectoryFromArchive ::
  "'w FileSys \<Rightarrow> Handle \<Rightarrow> Path \<Rightarrow> 'w KernelState \<Rightarrow> ResultCode \<times> 'w KernelState" where
  "CreateDirectoryFromArchive fs archive_handle path s =
     (case GetFast_Archive (g_object_pool s) archive_handle of
        None \<Rightarrow> (InvalidHandle ErrorModule_FS, s)
      | Some archive \<Rightarrow>
          (let (ok, s1) =
                 backend_call (Call_Archive_CreateDirectory (Archive_backend archive) path)
                   (ArchiveBackend_CreateDirectory fs (Archive_backend archive) path) s
           in if ok then (RESULT_SUCCESS, s1)
              else (ResultCode ErrorDescription_NoData ErrorModule_FS
                      ErrorSummary_Canceled ErrorLevel_Status, s1)))"

definition RenameDirectoryBetweenArchives ::
  "'w FileSys \<Rightarrow> Handle \<Rightarrow> Path \<Rightarrow> Handle \<Rightarrow> Path \<Rightarrow> 'w KernelState
     \<Rightarrow> ResultCode \<times> 'w KernelState" where
  "RenameDirectoryBetweenArchives fs src_archive_handle src_path dest_archive_handle dest_path s =
     (case GetFast_Archive (g_object_pool s) src_archive_handle of
        None \<Rightarrow> (InvalidHandle ErrorModule_FS, s)
      | Some src_archive \<Rightarrow>
          (case GetFast_Archive (g_object_pool s) dest_archive_handle of
             None \<Rightarrow> (InvalidHandle ErrorModule_FS, s)
           | Some dest_archive \<Rightarrow>
               if src_archive_handle = dest_archive_handle then
                 (let (ok, s1) =
                        backend_call
                          (Call_Archive_RenameDirectory (Archive_backend src_archive)
                             src_path dest_path)
                          (ArchiveBackend_RenameDirectory fs (Archive_backend src_archive)
                             src_path dest_path) s
                  in if ok then (RESULT_SUCCESS, s1)
                     else (ResultCode ErrorDescription_NoData ErrorModule_FS
                             ErrorSummary_NothingHappened ErrorLevel_Status, s1))
               else (UnimplementedFunction ErrorModule_FS, s)))"

definition OpenDirectoryFromArchive ::
  "'w FileSys \<Rightarrow> Handle \<Rightarrow> Path \<Rightarrow> 'w KernelState \<Rightarrow> Handle ResultVal \<times> 'w KernelState" where
  "OpenDirectoryFromArchive fs archive_handle path s =
     (let (handle, pool) =
            Create (g_object_pool s)
              (\<lambda>h. DirectoryObject
                     \<lparr>Directory_handle = h, Directory_path = Path_default,
                      Directory_backend = None\<rparr>);
          s1 = s\<lparr>g_object_pool := pool\<rparr>
      in case Get_Archive (g_object_pool s1) archive_handle of
           None \<Rightarrow> (ErrorResult (InvalidHandle ErrorModule_FS), s1)
         | Some archive \<Rightarrow>
             (let (backend, s2) =
                    backend_call (Call_Archive_OpenDirectory (Archive_backend archive) path)
                      (ArchiveBackend_OpenDirectory fs (Archive_backend archive) path) s1;
                  directory = \<lparr>Directory_handle = handle, Directory_path = path,
                               Directory_backend = backend\<rparr>;
                  s3 = s2\<lparr>g_object_pool :=
                            AList.update handle (DirectoryObject directory) (g_object_pool s2)\<rparr>
              in case backend of
                   None \<Rightarrow>
                     (ErrorResult (ResultCode ErrorDescription_NotFound ErrorModule_FS
                                     ErrorSummary_NotFound ErrorLevel_Permanent), s3)
                 | Some b \<Rightarrow> (MakeResult handle, s3)))"

definition ArchiveShutdown :: "'w KernelState \<Rightarrow> 'w KernelState" where
  "ArchiveShutdown s = s\<lparr>g_archive_map := Map.empty\<rparr>"

subsection \<open>A scripted backend and an example state\<close>

text \<open>
  A concrete outside world for running the model: the world counts the operations
  performed, every boolean operation answers \<open>ok\<close>, every open answers \<open>opened\<close>,
  every read, write and size query answers \<open>n\<close>, and the identifier code of an
  archive backend is its number.
\<close>

definition scripted_FileSys :: "bool \<Rightarrow> BackendPtr option \<Rightarrow> u64 \<Rightarrow> nat FileSys" where
  "scripted_FileSys ok opened n =
     \<lparr>raw = (\<lambda>rc. if IsSuccess rc then 0 else 1),
      ArchiveBackend_GetIdCode = (\<lambda>b w. (of_nat b, w)),
      ArchiveBackend_Read = (\<lambda>b offset len address w. (n, Suc w)),
      ArchiveBackend_Write = (\<lambda>b offset len flush address w. (n, Suc w)),
      ArchiveBackend_GetSize = (\<lambda>b w. (n, Suc w)),
      ArchiveBackend_SetSize = (\<lambda>b size64 w. ((), Suc w)),
      ArchiveBackend_OpenFile = (\<lambda>b path mode w. (opened, Suc w)),
      ArchiveBackend_DeleteFile = (\<lambda>b path w. (ok, Suc w)),
      ArchiveBackend_RenameFile = (\<lambda>b src_path dest_path w. (ok, Suc w)),
      ArchiveBackend_DeleteDirectory = (\<lambda>b path w. (ok, Suc w)),
      ArchiveBackend_CreateDirectory = (\<lambda>b path w. (ok, Suc w)),
      ArchiveBackend_RenameDirectory = (\<lambda>b src_path dest_path w. (ok, Suc w)),
      ArchiveBackend_OpenDirectory = (\<lambda>b path w. (opened, Suc w)),
      FileBackend_Read = (\<lambda>b offset len address w. (n, Suc w)),
      FileBackend_Write = (\<lambda>b offset len flush address w. (n, Suc w)),
      FileBackend_GetSize = (\<lambda>b w. (n, Suc w)),
      FileBackend_SetSize = (\<lambda>b size64 w. ((), Suc w)),
      FileBackend_Release = (\<lambda>b w. ((), Suc w)),
      DirectoryBackend_Read = (\<lambda>b count address w. (n, Suc w)),
      DirectoryBackend_Release = (\<lambda>b w. ((), Suc w))\<rparr>"

definition archive_A :: Archive where
  "archive_A = \<lparr>Archive_handle = 1, Archive_name = ''A'', Archive_backend = 9\<rparr>"

definition archive_B :: Archive where
  "archive_B = \<lparr>Archive_handle = 2, Archive_name = ''B'', Archive_backend = 4\<rparr>"

definition example_pool :: ObjectPool where
  "example_pool = [(2, ArchiveObject archive_B), (1, ArchiveObject archive_A)]"

text \<open>Archive \<open>A\<close> is mounted under the identifier code 9, archive \<open>B\<close> is not mounted.\<close>

definition example_state :: "nat KernelState" where
  "example_state =
     \<lparr>g_object_pool = example_pool, g_archive_map = [9 \<mapsto> 1],
      cmd_buff = (\<lambda>i. 0), world = 0, calls = []\<rparr>"

definition with_command :: "u32 \<Rightarrow> 'w KernelState \<Rightarrow> 'w KernelState" where
  "with_command cmd s = set_cmd_buff 0 cmd s"

definition path_x :: Path where
  "path_x = \<lparr>GetType = FileSys_Char, Path_data = ''/x''\<rparr>"

definition path_y :: Path where
  "path_y = \<lparr>GetType = FileSys_Char, Path_data = ''/y''\<rparr>"

definition path_binary :: Path where
  "path_binary = \<lparr>GetType = FileSys_Binary, Path_data = []\<rparr>"

definition file_F :: File where
  "file_F = \<lparr>File_handle = 3, File_path = path_x, File_backend = Some 7\<rparr>"




section \<open>Properties\<close>

subsection \<open>Helper facts\<close>

lemma fold_max_ge: "a \<le> fold max xs (a::nat)"
  by (induction xs arbitrary: a) (auto intro: order_trans[OF max.cobounded2])

lemma fold_max_mem: "x \<in> set xs \<Longrightarrow> x \<le> fold max xs (a::nat)"
proof (induction xs arbitrary: a)
  case Nil
  then show ?case by simp
next
  case (Cons y ys)
  show ?case
  proof (cases "x = y")
    case True
    have "max y a \<le> fold max ys (max y a)" by (rule fold_max_ge)
    with True show ?thesis by simp
  next
    case False
    with Cons show ?thesis by simp
  qed
qed

text \<open>The handle that \<open>Create\<close> picks is not in use.\<close>

lemma fresh_handle_unused: "map_of pool (fresh_handle pool) = None"
proof -
  have "fresh_handle pool \<notin> fst ` set pool"
  proof
    assume "fresh_handle pool \<in> fst ` set pool"
    then have "fresh_handle pool \<in> set (map fst pool)" by simp
    then have "fresh_handle pool \<le> fold max (map fst pool) 0" by (rule fold_max_mem)
    then show False by (simp add: fresh_handle_def)
  qed
  then show ?thesis by (simp add: map_of_eq_None_iff)
qed

lemma example_pool_lookup:
  "GetFast_Archive (g_object_pool example_state) 1 = Some archive_A"
  "GetFast_Archive (g_object_pool example_state) 2 = Some archive_B"
  "GetFast_Archive (g_object_pool example_state) 5 = None"
  by (simp_all add: GetFast_Archive_def Get_Archive_def example_state_def example_pool_def)

subsection \<open>The archive registry\<close>

text \<open>
  Claim C8. For every identifier code, \<open>OpenArchive\<close> returns success carrying the
  handle stored for that code in the archive registry when a mapping is present, and
  the NotFound error (module FS, summary NotFound) when none is present; the state,
  and so the registry, is returned as it was.
\<close>

theorem OpenArchive_lookup:
  "(\<forall>h. g_archive_map s id_code = Some h \<longrightarrow>
        fst (OpenArchive id_code s) = MakeResult h \<and> Succeeded (fst (OpenArchive id_code s)))
   \<and> (g_archive_map s id_code = None \<longrightarrow>
        fst (OpenArchive id_code s) =
          ErrorResult (ResultCode ErrorDescription_NotFound ErrorModule_FS
                         ErrorSummary_NotFound ErrorLevel_Permanent)
        \<and> \<not> Succeeded (fst (OpenArchive id_code s)))
   \<and> snd (OpenArchive id_code s) = s"
  by (simp add: OpenArchive_def Succeeded_def MakeResult_def ErrorResult_def
        split: option.splits)

theorem OpenArchive_lookup_witness:
  "g_archive_map example_state 9 = Some 1
   \<and> fst (OpenArchive 9 example_state) = MakeResult 1
   \<and> g_archive_map example_state 2 = None
   \<and> fst (OpenArchive 2 example_state) =
       ErrorResult (ResultCode ErrorDescription_NotFound ErrorModule_FS
                      ErrorSummary_NotFound ErrorLevel_Permanent)
   \<and> snd (OpenArchive 9 example_state) = example_state"
proof -
  have present: "g_archive_map example_state 9 = Some 1"
    by (simp add: example_state_def)
  have absent: "g_archive_map example_state 2 = None"
    by (simp add: example_state_def)
  from present absent OpenArchive_lookup [of example_state 9]
    OpenArchive_lookup [of example_state 2]
  show ?thesis by simp
qed

text \<open>
  Claim C2, as the code has it. \<open>CloseArchive\<close> returns \<open>RESULT_SUCCESS\<close> when the
  registry has an entry for the identifier code and the invalid-handle error when it
  has none; in both cases the registry is left as it was, so the entry is not
  removed.
\<close>

theorem CloseArchive_keeps_registry:
  "(g_archive_map s id_code \<noteq> None \<longrightarrow> fst (CloseArchive id_code s) = RESULT_SUCCESS)
   \<and> (g_archive_map s id_code = None \<longrightarrow>
        fst (CloseArchive id_code s) = InvalidHandle ErrorModule_FS)
   \<and> snd (CloseArchive id_code s) = s"
  by (simp add: CloseArchive_def split: option.splits)

theorem CloseArchive_keeps_registry_witness:
  "g_archive_map example_state 9 \<noteq> None
   \<and> fst (CloseArchive 9 example_state) = RESULT_SUCCESS
   \<and> g_archive_map example_state 2 = None
   \<and> fst (CloseArchive 2 example_state) = InvalidHandle ErrorModule_FS
   \<and> snd (CloseArchive 9 example_state) = example_state"
proof -
  have present: "g_archive_map example_state 9 \<noteq> None"
    by (simp add: example_state_def)
  have absent: "g_archive_map example_state 2 = None"
    by (simp add: example_state_def)
  from present absent CloseArchive_keeps_registry [of example_state 9]
    CloseArchive_keeps_registry [of example_state 2]
  show ?thesis by simp
qed

text \<open>
  Claim C2 as stated fails: with archive \<open>A\<close> mounted under the code 9, closing 9
  succeeds, the entry is still in the registry, and opening 9 afterwards returns the
  handle of \<open>A\<close>, not NotFound.
\<close>

theorem CloseArchive_removes_entry_counterexample:
  "g_archive_map example_state 9 = Some 1
   \<and> fst (CloseArchive 9 example_state) = RESULT_SUCCESS
   \<and> g_archive_map (snd (CloseArchive 9 example_state)) 9 = Some 1
   \<and> fst (OpenArchive 9 (snd (CloseArchive 9 example_state))) = MakeResult 1
   \<and> fst (OpenArchive 9 (snd (CloseArchive 9 example_state))) \<noteq>
       ErrorResult (ResultCode ErrorDescription_NotFound ErrorModule_FS
                      ErrorSummary_NotFound ErrorLevel_Permanent)"
  by (simp add: CloseArchive_def OpenArchive_def example_state_def MakeResult_def
        ErrorResult_def)

text \<open>
  Mounting under an identifier code that is already in the registry: the registry is
  left as it was, and the code returned is the code of the successful lookup, which
  is a success code.
\<close>

lemma MountArchive_already_mounted:
  assumes "ArchiveBackend_GetIdCode fs (Archive_backend archive) (world s) = (id_code, w)"
    and "g_archive_map s id_code = Some h"
  shows "fst (MountArchive fs archive s) = RESULT_SUCCESS"
    and "g_archive_map (snd (MountArchive fs archive s)) = g_archive_map s"
  using assms
  by (simp_all add: MountArchive_def backend_call_def OpenArchive_def Succeeded_def
        MakeResult_def)

text \<open>
  Claim C1 at a concrete input. Archive \<open>A\<close> (handle 1) is mounted under the code 9;
  mounting a second archive (handle 3) whose backend reports the code 9 leaves the
  registry pointing at handle 1, and the returned code is a success code, not an
  error.
\<close>

theorem MountArchive_duplicate_returns_success:
  "fst (MountArchive (scripted_FileSys True None 0)
          \<lparr>Archive_handle = 3, Archive_name = ''C'', Archive_backend = 9\<rparr> example_state)
     = RESULT_SUCCESS
   \<and> \<not> IsError (fst (MountArchive (scripted_FileSys True None 0)
          \<lparr>Archive_handle = 3, Archive_name = ''C'', Archive_backend = 9\<rparr> example_state))
   \<and> g_archive_map (snd (MountArchive (scripted_FileSys True None 0)
          \<lparr>Archive_handle = 3, Archive_name = ''C'', Archive_backend = 9\<rparr> example_state)) 9
     = Some 1"
  by (simp add: MountArchive_def backend_call_def scripted_FileSys_def example_state_def
        OpenArchive_def Succeeded_def MakeResult_def IsError_def)

subsection \<open>Splitting 64-bit sizes\<close>

text \<open>
  Where the program uses the two directions: the \<open>GetSize\<close> case of
  \<open>File::SyncRequest\<close> stores the low and the high word of the backend's size into
  words 2 and 3, and the \<open>SetSize\<close> case hands the backend the value decoded from
  words 1 and 2.
\<close>

lemma File_GetSize_encodes:
  assumes "cmd_buff s 0 = FileCommand_GetSize" and "File_backend this = Some b"
    and "FileBackend_GetSize fs b (world s) = (S, w)"
  shows "\<exists>s'. File_SyncRequest fs this s = Some (MakeResult False, s')
              \<and> cmd_buff s' 2 = lower_word S \<and> cmd_buff s' 3 = upper_word S"
  using assms
  by (simp add: File_SyncRequest_def FileCommand_GetSize_def FileCommand_Read_def
        FileCommand_Write_def backend_call_def SyncRequest_done_def set_cmd_buff_def)

lemma File_SetSize_decodes:
  assumes "cmd_buff s 0 = FileCommand_SetSize" and "File_backend this = Some b"
  shows "\<exists>s'. File_SyncRequest fs this s = Some (MakeResult False, s')
              \<and> calls s' = calls s @ [Call_File_SetSize b (decode_u64 (cmd_buff s 1) (cmd_buff s 2))]"
  using assms
  by (simp add: File_SyncRequest_def FileCommand_SetSize_def FileCommand_GetSize_def
        FileCommand_Read_def FileCommand_Write_def backend_call_def SyncRequest_done_def
        set_cmd_buff_def Let_def split_beta)

text \<open>
  Claim C7. For every 64-bit value, storing its low 32 bits in a first word and its
  high 32 bits in a second word, as the \<open>GetSize\<close> case does, and decoding the two
  words as the \<open>SetSize\<close> case does (first word or-ed with the second word shifted
  left by 32) gives the value back; in particular for 0, 1, 2^32 - 1, 2^32 and
  2^64 - 1.
\<close>

theorem size_encode_decode_roundtrip:
  "decode_u64 (lower_word S) (upper_word S) = S
   \<and> decode_u64 (lower_word 0) (upper_word 0) = 0
   \<and> decode_u64 (lower_word 1) (upper_word 1) = 1
   \<and> decode_u64 (lower_word (2 ^ 32 - 1)) (upper_word (2 ^ 32 - 1)) = 2 ^ 32 - 1
   \<and> decode_u64 (lower_word (2 ^ 32)) (upper_word (2 ^ 32)) = 2 ^ 32
   \<and> decode_u64 (lower_word (2 ^ 64 - 1)) (upper_word (2 ^ 64 - 1)) = 2 ^ 64 - 1"
proof -
  have roundtrip: "decode_u64 (lower_word x) (upper_word x) = x" for x
    unfolding decode_u64_def lower_word_def upper_word_def
    by (rule bit_word_eqI) (auto simp: bit_simps)
  show ?thesis by (simp only: roundtrip)
qed

subsection \<open>Opening a file of an archive\<close>

text \<open>
  Claim C10. When the type of the path is \<open>Binary\<close>, \<open>OpenFileFromArchive\<close> returns
  success carrying the archive handle itself, whatever the handle is, and returns
  the state as it was: the object pool has no new object, the registry is not
  consulted for validation, and no backend call is recorded.
\<close>

theorem OpenFileFromArchive_binary:
  "GetType path = FileSys_Binary \<Longrightarrow>
     OpenFileFromArchive fs archive_handle path mode s = (MakeResult archive_handle, s)"
  by (simp add: OpenFileFromArchive_def)

theorem OpenFileFromArchive_binary_witness:
  "GetType path_binary = FileSys_Binary
   \<and> Get_Archive (g_object_pool example_state) 5 = None
   \<and> OpenFileFromArchive (scripted_FileSys True (Some 7) 0) 5 path_binary 3 example_state
       = (MakeResult 5, example_state)"
proof -
  have binary: "GetType path_binary = FileSys_Binary"
    by (simp add: path_binary_def)
  have invalid: "Get_Archive (g_object_pool example_state) 5 = None"
    by (simp add: Get_Archive_def example_state_def example_pool_def)
  from binary invalid
    OpenFileFromArchive_binary [OF binary, of "scripted_FileSys True (Some 7) 0" 5 3 example_state]
  show ?thesis by simp
qed

text \<open>
  When the path is not binary, the archive handle is valid and the backend opens
  nothing, the result is NotFound, and the \<open>File\<close> object registered before the
  lookup stays in the pool under a handle that was free before the call.
\<close>

lemma OpenFileFromArchive_backend_null:
  assumes not_binary: "GetType path \<noteq> FileSys_Binary"
    and valid: "Get_Archive (g_object_pool s) archive_handle = Some archive"
    and null: "fst (ArchiveBackend_OpenFile fs (Archive_backend archive) path mode (world s)) = None"
  shows "fst (OpenFileFromArchive fs archive_handle path mode s) =
           ErrorResult (ResultCode ErrorDescription_NotFound ErrorModule_FS
                          ErrorSummary_NotFound ErrorLevel_Permanent)"
    and "Get_File (g_object_pool (snd (OpenFileFromArchive fs archive_handle path mode s)))
           (fresh_handle (g_object_pool s)) =
         Some \<lparr>File_handle = fresh_handle (g_object_pool s), File_path = path,
               File_backend = None\<rparr>"
    and "Get_File (g_object_pool s) (fresh_handle (g_object_pool s)) = None"
proof -
  let ?h = "fresh_handle (g_object_pool s)"
  have unused: "map_of (g_object_pool s) ?h = None"
    by (rule fresh_handle_unused)
  from valid unused have distinct: "archive_handle \<noteq> ?h"
    by (auto simp: Get_Archive_def)
  with valid have valid':
    "Get_Archive ((?h, obj) # g_object_pool s) archive_handle = Some archive" for obj
    by (simp add: Get_Archive_def)
  obtain w where opened:
    "ArchiveBackend_OpenFile fs (Archive_backend archive) path mode (world s) = (None, w)"
    using null by (cases "ArchiveBackend_OpenFile fs (Archive_backend archive) path mode (world s)") simp
  show "fst (OpenFileFromArchive fs archive_handle path mode s) =
           ErrorResult (ResultCode ErrorDescription_NotFound ErrorModule_FS
                          ErrorSummary_NotFound ErrorLevel_Permanent)"
    using not_binary valid' opened
    by (simp add: OpenFileFromArchive_def Create_def Let_def backend_call_def)
  show "Get_File (g_object_pool (snd (OpenFileFromArchive fs archive_handle path mode s))) ?h =
         Some \<lparr>File_handle = ?h, File_path = path, File_backend = None\<rparr>"
    using not_binary valid' opened
    by (simp add: OpenFileFromArchive_def Create_def Let_def backend_call_def Get_File_def)
  show "Get_File (g_object_pool s) ?h = None"
    using unused by (simp add: Get_File_def)
qed

text \<open>
  Claim C3 at a concrete input. Archive \<open>A\<close> has handle 1 and its backend has no
  file \<open>/x\<close>. The call returns NotFound, and the pool, which had no object under
  handle 3, now has a \<open>File\<close> object with a null backend registered there: the pool
  is not unchanged.
\<close>

theorem OpenFileFromArchive_not_found_leaves_File:
  "fst (OpenFileFromArchive (scripted_FileSys True None 0) 1 path_x 3 example_state) =
     ErrorResult (ResultCode ErrorDescription_NotFound ErrorModule_FS
                    ErrorSummary_NotFound ErrorLevel_Permanent)
   \<and> Get_File (g_object_pool example_state) 3 = None
   \<and> Get_File (g_object_pool
        (snd (OpenFileFromArchive (scripted_FileSys True None 0) 1 path_x 3 example_state))) 3 =
       Some \<lparr>File_handle = 3, File_path = path_x, File_backend = None\<rparr>
   \<and> g_object_pool
        (snd (OpenFileFromArchive (scripted_FileSys True None 0) 1 path_x 3 example_state)) \<noteq>
       g_object_pool example_state"
  by (simp add: OpenFileFromArchive_def Create_def fresh_handle_def Let_def backend_call_def
        Get_File_def Get_Archive_def scripted_FileSys_def example_state_def example_pool_def
        path_x_def)

subsection \<open>Delete, create and rename\<close>

text \<open>
  Claim C6. Each of \<open>DeleteFileFromArchive\<close>, \<open>DeleteDirectoryFromArchive\<close> and
  \<open>CreateDirectoryFromArchive\<close> returns the invalid-handle error, with the state and
  so the record of backend calls as it was, when the handle does not resolve to an
  \<open>Archive\<close> in the object pool. Otherwise it makes exactly one backend call, the
  matching operation on the archive's backend with the given path, and returns
  \<open>RESULT_SUCCESS\<close> if the backend answered true and the NoData error with summary
  Canceled if it answered false.
\<close>

theorem path_operations_on_archive:
  "(GetFast_Archive (g_object_pool s) h = None \<longrightarrow>
      DeleteFileFromArchive fs h path s = (InvalidHandle ErrorModule_FS, s)
      \<and> DeleteDirectoryFromArchive fs h path s = (InvalidHandle ErrorModule_FS, s)
      \<and> CreateDirectoryFromArchive fs h path s = (InvalidHandle ErrorModule_FS, s))
   \<and> (\<forall>a. GetFast_Archive (g_object_pool s) h = Some a \<longrightarrow>
      DeleteFileFromArchive fs h path s =
        (if fst (ArchiveBackend_DeleteFile fs (Archive_backend a) path (world s))
         then RESULT_SUCCESS
         else ResultCode ErrorDescription_NoData ErrorModule_FS
                ErrorSummary_Canceled ErrorLevel_Status,
         s\<lparr>world := snd (ArchiveBackend_DeleteFile fs (Archive_backend a) path (world s)),
           calls := calls s @ [Call_Archive_DeleteFile (Archive_backend a) path]\<rparr>)
      \<and> DeleteDirectoryFromArchive fs h path s =
        (if fst (ArchiveBackend_DeleteDirectory fs (Archive_backend a) path (world s))
         then RESULT_SUCCESS
         else ResultCode ErrorDescription_NoData ErrorModule_FS
                ErrorSummary_Canceled ErrorLevel_Status,
         s\<lparr>world := snd (ArchiveBackend_DeleteDirectory fs (Archive_backend a) path (world s)),
           calls := calls s @ [Call_Archive_DeleteDirectory (Archive_backend a) path]\<rparr>)
      \<and> CreateDirectoryFromArchive fs h path s =
        (if fst (ArchiveBackend_CreateDirectory fs (Archive_backend a) path (world s))
         then RESULT_SUCCESS
         else ResultCode ErrorDescription_NoData ErrorModule_FS
                ErrorSummary_Canceled ErrorLevel_Status,
         s\<lparr>world := snd (ArchiveBackend_CreateDirectory fs (Archive_backend a) path (world s)),
           calls := calls s @ [Call_Archive_CreateDirectory (Archive_backend a) path]\<rparr>))"
  by (simp add: DeleteFileFromArchive_def DeleteDirectoryFromArchive_def
        CreateDirectoryFromArchive_def backend_call_def split: prod.splits)

theorem path_operations_on_archive_witness:
  "GetFast_Archive (g_object_pool example_state) 5 = None
   \<and> DeleteFileFromArchive (scripted_FileSys True None 0) 5 path_x example_state
       = (InvalidHandle ErrorModule_FS, example_state)
   \<and> GetFast_Archive (g_object_pool example_state) 1 = Some archive_A
   \<and> DeleteFileFromArchive (scripted_FileSys True None 0) 1 path_x example_state
       = (RESULT_SUCCESS, example_state\<lparr>world := 1, calls := [Call_Archive_DeleteFile 9 path_x]\<rparr>)
   \<and> DeleteDirectoryFromArchive (scripted_FileSys False None 0) 1 path_x example_state
       = (ResultCode ErrorDescription_NoData ErrorModule_FS ErrorSummary_Canceled ErrorLevel_Status,
          example_state\<lparr>world := 1, calls := [Call_Archive_DeleteDirectory 9 path_x]\<rparr>)
   \<and> CreateDirectoryFromArchive (scripted_FileSys True None 0) 1 path_x example_state
       = (RESULT_SUCCESS,
          example_state\<lparr>world := 1, calls := [Call_Archive_CreateDirectory 9 path_x]\<rparr>)"
proof -
  have invalid: "GetFast_Archive (g_object_pool example_state) 5 = None"
    and valid: "GetFast_Archive (g_object_pool example_state) 1 = Some archive_A"
    by (rule example_pool_lookup)+
  have facts: "world example_state = 0" "calls example_state = []"
    "Archive_backend archive_A = 9"
    by (simp_all add: example_state_def archive_A_def)
  from invalid valid
    path_operations_on_archive [of example_state 5 "scripted_FileSys True None 0" path_x]
    path_operations_on_archive [of example_state 1 "scripted_FileSys True None 0" path_x]
    path_operations_on_archive [of example_state 1 "scripted_FileSys False None 0" path_x]
  show ?thesis by (simp add: facts scripted_FileSys_def)
qed

text \<open>
  Claim C5. For \<open>RenameFileBetweenArchives\<close> and \<open>RenameDirectoryBetweenArchives\<close>
  with two valid archive handles: when the two handles are equal and the backend
  rename answers false, the result is the NoData error with summary
  NothingHappened; when the handles differ, the result is the
  unimplemented-function error and the state, with its record of backend calls, is
  as it was.
\<close>

theorem rename_between_archives:
  assumes "GetFast_Archive (g_object_pool s) src = Some a"
    and "GetFast_Archive (g_object_pool s) dest = Some b"
  shows
    "(src = dest
        \<and> \<not> fst (ArchiveBackend_RenameFile fs (Archive_backend a) src_path dest_path (world s)) \<longrightarrow>
        fst (RenameFileBetweenArchives fs src src_path dest dest_path s) =
          ResultCode ErrorDescription_NoData ErrorModule_FS
            ErrorSummary_NothingHappened ErrorLevel_Status
        \<and> summary (fst (RenameFileBetweenArchives fs src src_path dest dest_path s)) =
            Some ErrorSummary_NothingHappened)
     \<and> (src = dest
        \<and> \<not> fst (ArchiveBackend_RenameDirectory fs (Archive_backend a) src_path dest_path (world s)) \<longrightarrow>
        fst (RenameDirectoryBetweenArchives fs src src_path dest dest_path s) =
          ResultCode ErrorDescription_NoData ErrorModule_FS
            ErrorSummary_NothingHappened ErrorLevel_Status
        \<and> summary (fst (RenameDirectoryBetweenArchives fs src src_path dest dest_path s)) =
            Some ErrorSummary_NothingHappened)
     \<and> (src \<noteq> dest \<longrightarrow>
        RenameFileBetweenArchives fs src src_path dest dest_path s =
          (UnimplementedFunction ErrorModule_FS, s)
        \<and> RenameDirectoryBetweenArchives fs src src_path dest dest_path s =
          (UnimplementedFunction ErrorModule_FS, s))"
  using assms
  by (auto simp add: RenameFileBetweenArchives_def RenameDirectoryBetweenArchives_def
        backend_call_def split_beta)

theorem rename_between_archives_witness:
  "GetFast_Archive (g_object_pool example_state) 1 = Some archive_A
   \<and> GetFast_Archive (g_object_pool example_state) 2 = Some archive_B
   \<and> \<not> fst (ArchiveBackend_RenameFile (scripted_FileSys False None 0)
             (Archive_backend archive_A) path_x path_y (world example_state))
   \<and> \<not> fst (ArchiveBackend_RenameDirectory (scripted_FileSys False None 0)
             (Archive_backend archive_A) path_x path_y (world example_state))
   \<and> fst (RenameFileBetweenArchives (scripted_FileSys False None 0) 1 path_x 1 path_y
            example_state) =
       ResultCode ErrorDescription_NoData ErrorModule_FS
         ErrorSummary_NothingHappened ErrorLevel_Status
   \<and> fst (RenameDirectoryBetweenArchives (scripted_FileSys False None 0) 1 path_x 1 path_y
            example_state) =
       ResultCode ErrorDescription_NoData ErrorModule_FS
         ErrorSummary_NothingHappened ErrorLevel_Status
   \<and> RenameFileBetweenArchives (scripted_FileSys False None 0) 1 path_x 2 path_y example_state =
       (UnimplementedFunction ErrorModule_FS, example_state)
   \<and> RenameDirectoryBetweenArchives (scripted_FileSys True None 0) 1 path_x 2 path_y
       example_state =
       (UnimplementedFunction ErrorModule_FS, example_state)"
proof -
  have A: "GetFast_Archive (g_object_pool example_state) 1 = Some archive_A"
    and B: "GetFast_Archive (g_object_pool example_state) 2 = Some archive_B"
    by (rule example_pool_lookup)+
  have refused:
    "\<not> fst (ArchiveBackend_RenameFile (scripted_FileSys False None 0)
             (Archive_backend archive_A) path_x path_y (world example_state))"
    "\<not> fst (ArchiveBackend_RenameDirectory (scripted_FileSys False None 0)
             (Archive_backend archive_A) path_x path_y (world example_state))"
    by (simp_all add: scripted_FileSys_def)
  from A B refused
    rename_between_archives [OF A A, of "scripted_FileSys False None 0" path_x path_y]
    rename_between_archives [OF A B, of "scripted_FileSys False None 0" path_x path_y]
    rename_between_archives [OF A B, of "scripted_FileSys True None 0" path_x path_y]
  show ?thesis by simp
qed

subsection \<open>Command dispatch\<close>

lemmas FileCommand_defs =
  FileCommand_Dummy1_def FileCommand_Control_def FileCommand_OpenSubFile_def
  FileCommand_Read_def FileCommand_Write_def FileCommand_GetSize_def FileCommand_SetSize_def
  FileCommand_GetAttributes_def FileCommand_SetAttributes_def FileCommand_Close_def
  FileCommand_Flush_def


lemma with_command_0: "cmd_buff (with_command cmd s) 0 = cmd"
  by (simp add: with_command_def set_cmd_buff_def)









text \<open>
  An unknown command: the \<open>Archive\<close> dispatch returns the unimplemented-function
  error of module FS and the state, command buffer included, as it was. The \<open>File\<close>
  and \<open>Directory\<close> dispatches return the same error and store its raw encoding into
  word 1.
\<close>

lemma Archive_SyncRequest_unknown:
  assumes "cmd_buff s 0 \<notin> {FileCommand_Read, FileCommand_Write, FileCommand_GetSize,
                            FileCommand_SetSize, FileCommand_Close}"
  shows "Archive_SyncRequest fs this s = (ErrorResult (UnimplementedFunction ErrorModule_FS), s)"
  using assms by (simp add: Archive_SyncRequest_def Let_def)

lemma File_SyncRequest_unknown:
  assumes "cmd_buff s 0 \<notin> {FileCommand_Read, FileCommand_Write, FileCommand_GetSize,
                            FileCommand_SetSize, FileCommand_Close}"
  shows "File_SyncRequest fs this s =
           Some (ErrorResult (UnimplementedFunction ErrorModule_FS),
                 set_cmd_buff 1 (raw fs (UnimplementedFunction ErrorModule_FS)) s)"
  using assms by (simp add: File_SyncRequest_def Let_def)

lemma Directory_SyncRequest_unknown:
  assumes "cmd_buff s 0 \<notin> {DirectoryCommand_Read, DirectoryCommand_Close}"
  shows "Directory_SyncRequest fs this s =
           Some (ErrorResult (UnimplementedFunction ErrorModule_FS),
                 set_cmd_buff 1 (raw fs (UnimplementedFunction ErrorModule_FS)) s)"
  using assms by (simp add: Directory_SyncRequest_def Let_def)

text \<open>
  Claim C4 at a concrete input. The command buffer holds the identifier
  \<open>FileCommand_Flush\<close>, which has no case, and 0 in word 1. \<open>Archive::SyncRequest\<close>
  returns the unimplemented-function error of module FS, and word 1 is still 0
  afterwards: no status is written. On the same buffer \<open>File::SyncRequest\<close> stores
  the raw error code into word 1.
\<close>

theorem Archive_SyncRequest_unknown_leaves_status:
  "cmd_buff (with_command FileCommand_Flush example_state) 0 \<notin>
     {FileCommand_Read, FileCommand_Write, FileCommand_GetSize, FileCommand_SetSize,
      FileCommand_Close}
   \<and> fst (Archive_SyncRequest (scripted_FileSys True None 0) archive_A
            (with_command FileCommand_Flush example_state)) =
       ErrorResult (UnimplementedFunction ErrorModule_FS)
   \<and> cmd_buff (with_command FileCommand_Flush example_state) 1 = 0
   \<and> cmd_buff (snd (Archive_SyncRequest (scripted_FileSys True None 0) archive_A
            (with_command FileCommand_Flush example_state))) 1 = 0
   \<and> File_SyncRequest (scripted_FileSys True None 0) file_F
       (with_command FileCommand_Flush example_state) =
       Some (ErrorResult (UnimplementedFunction ErrorModule_FS),
             set_cmd_buff 1 1 (with_command FileCommand_Flush example_state))"
proof -
  have unknown: "cmd_buff (with_command FileCommand_Flush example_state) 0 \<notin>
     {FileCommand_Read, FileCommand_Write, FileCommand_GetSize, FileCommand_SetSize,
      FileCommand_Close}"
    by (simp add: with_command_0 FileCommand_defs)
  have status: "cmd_buff (with_command FileCommand_Flush example_state) 1 = 0"
    by (simp add: with_command_def set_cmd_buff_def example_state_def)
  have raw: "raw (scripted_FileSys True None 0) (UnimplementedFunction ErrorModule_FS) = 1"
    by (simp add: scripted_FileSys_def)
  show ?thesis
    using unknown status raw
    by (simp only: Archive_SyncRequest_unknown [OF unknown]
          File_SyncRequest_unknown [OF unknown] fst_conv snd_conv simp_thms)
qed

end
